theory Spec2Isabelle
  imports Complex_Main "HOL-Library.Sublist"
begin

section \<open>JSON values and Python operations on them\<close>

text \<open>
  A request body after \<^verbatim>\<open>request.get_json()\<close>: Python's \<^verbatim>\<open>None\<close>, \<^verbatim>\<open>bool\<close>,
  \<^verbatim>\<open>int\<close>, \<^verbatim>\<open>float\<close>, \<^verbatim>\<open>str\<close>, \<^verbatim>\<open>list\<close> and \<^verbatim>\<open>dict\<close>. A dict is the list of
  its items in insertion order (keys distinct); a finite float is the rational it denotes.
\<close>

datatype json =
    JNull
  | JBool bool
  | JInt int
  | JFloat rat
  | JStr string
  | JList "json list"
  | JObj "(string \<times> json) list"

text \<open>\<^verbatim>\<open>d.get(key, None)\<close>: a missing key and a key holding \<^verbatim>\<open>null\<close> both give \<^verbatim>\<open>None\<close>.\<close>

definition dict_get :: "(string \<times> json) list \<Rightarrow> string \<Rightarrow> json" where
  "dict_get d k = (case map_of d k of None \<Rightarrow> JNull | Some v \<Rightarrow> v)"

text \<open>
  The exceptions that reach no \<^verbatim>\<open>except\<close> clause: Python's own \<^verbatim>\<open>AttributeError\<close> and
  \<^verbatim>\<open>TypeError\<close>, the database driver's \<^verbatim>\<open>ValueError\<close> for a string parameter that holds
  a NUL character, and the ORM's \<^verbatim>\<open>DataError\<close> for a number the store's type cannot hold.
\<close>

datatype py_exception = AttributeError | TypeError | ValueError | DataError

text \<open>
  What ends a view function early: \<^verbatim>\<open>abort(400)\<close>, \<^verbatim>\<open>abort(404)\<close>, \<^verbatim>\<open>abort(422)\<close>, or a
  Python exception that no \<^verbatim>\<open>except\<close> clause of the view catches.
\<close>

datatype failure = BadRequest | NotFound | UnprocessableEntity | Unhandled py_exception

text \<open>Python's \<^verbatim>\<open>x == i\<close> for an integer \<open>i\<close>: \<^verbatim>\<open>True == 1\<close>, \<^verbatim>\<open>1.0 == 1\<close>.\<close>

fun py_eq_int :: "json \<Rightarrow> int \<Rightarrow> bool" where
  "py_eq_int (JInt k) i = (k = i)"
| "py_eq_int (JBool b) i = ((if b then 1 else 0) = i)"
| "py_eq_int (JFloat r) i = (r = of_int i)"
| "py_eq_int JNull i = False"
| "py_eq_int (JStr v) i = False"
| "py_eq_int (JList v) i = False"
| "py_eq_int (JObj v) i = False"

text \<open>
  Python's \<^verbatim>\<open>i in c\<close> for an integer \<open>i\<close>: membership in a list, key membership in a
  dict (keys of a JSON object are strings), \<^verbatim>\<open>TypeError\<close> for a string and for a value
  that is not iterable.
\<close>

fun py_in :: "int \<Rightarrow> json \<Rightarrow> py_exception + bool" where
  "py_in i (JList xs) = Inr (list_ex (\<lambda>x. py_eq_int x i) xs)"
| "py_in i (JObj d) = Inr False"
| "py_in i (JStr v) = Inl TypeError"
| "py_in i JNull = Inl TypeError"
| "py_in i (JBool v) = Inl TypeError"
| "py_in i (JInt v) = Inl TypeError"
| "py_in i (JFloat v) = Inl TypeError"

section \<open>Responses\<close>

text \<open>A response: the HTTP status and the JSON body, if there is one.\<close>

record response =
  status :: nat
  body :: "json option"

definition jsonify :: "(string \<times> json) list \<Rightarrow> nat \<Rightarrow> response" where
  "jsonify d code = \<lparr>status = code, body = Some (JObj d)\<rparr>"

text \<open>The framework's \<^verbatim>\<open>error.description\<close> of each HTTP error.\<close>

fun description :: "failure \<Rightarrow> string" where
  "description BadRequest =
     ''The browser (or proxy) sent a request that this server could not understand.''"
| "description NotFound =
     ''The requested URL was not found on the server. If you entered the URL manually please check your spelling and try again.''"
| "description UnprocessableEntity =
     ''The request was well-formed but was unable to be followed due to semantic errors.''"
| "description (Unhandled e) =
     ''The server encountered an internal error and was unable to complete your request. Either the server is overloaded or there is an error in the application.''"

definition get_400_error :: "failure \<Rightarrow> response" where
  "get_400_error error =
     jsonify [(''success'', JBool False), (''status'', JInt 400),
              (''message'', JStr (description error))] 400"

definition get_404_error :: "failure \<Rightarrow> response" where
  "get_404_error error =
     jsonify [(''success'', JBool False), (''status'', JInt 404),
              (''message'', JStr (description error))] 404"

definition get_422_error :: "failure \<Rightarrow> response" where
  "get_422_error error =
     jsonify [(''success'', JBool False), (''status'', JInt 422),
              (''message'', JStr ''The json that was sent did not include a proper field. Please refer to documentation.'')] 422"

definition get_500_error :: "failure \<Rightarrow> response" where
  "get_500_error error =
     jsonify [(''success'', JBool False), (''status'', JInt 500),
              (''message'', JStr (description error))] 500"

text \<open>
  What the client receives: the view's own response, or the registered error handler's
  response when the view aborted; an unhandled exception reaches the 500 handler.
\<close>

fun respond :: "failure + response \<Rightarrow> response" where
  "respond (Inr r) = r"
| "respond (Inl BadRequest) = get_400_error BadRequest"
| "respond (Inl NotFound) = get_404_error NotFound"
| "respond (Inl UnprocessableEntity) = get_422_error UnprocessableEntity"
| "respond (Inl (Unhandled e)) = get_500_error (Unhandled e)"

section \<open>The store\<close>

record category =
  c_id :: int
  c_type :: string

record question =
  q_id :: int
  q_question :: string
  q_answer :: string
  q_category_id :: int
  q_difficulty :: int

text \<open>
  The store: its two tables, and the lower-case mapping of its collation, which decides
  what \<^verbatim>\<open>ILIKE\<close> takes for the same letter. A character is a code point; \<^typ>\<open>char\<close> holds
  the code points up to U+00FF.
\<close>

record store =
  categories :: "category list"
  questions :: "question list"
  collation :: "char \<Rightarrow> char"

text \<open>
  Modelled from the spec: \<^verbatim>\<open>Category.format\<close> and \<^verbatim>\<open>Question.format\<close> of the models
  module, which is not among the sources. The spec serialises a category as \<open>{id, type}\<close>
  and a question as its five fields.
\<close>

definition Category_format :: "category \<Rightarrow> json" where
  "Category_format c = JObj [(''id'', JInt (c_id c)), (''type'', JStr (c_type c))]"

definition Question_format :: "question \<Rightarrow> json" where
  "Question_format q =
     JObj [(''id'', JInt (q_id q)), (''question'', JStr (q_question q)),
           (''answer'', JStr (q_answer q)), (''category_id'', JInt (q_category_id q)),
           (''difficulty'', JInt (q_difficulty q))]"

text \<open>
  Modelled from the spec: \<^verbatim>\<open>Question.delete\<close> of the models module, which is not among
  the sources. The row with the question's id leaves the table, unless the store raises
  an error, whose text is \<open>fault\<close>; then the table is as before.
\<close>

definition Question_delete :: "string option \<Rightarrow> question \<Rightarrow> store \<Rightarrow> string + store" where
  "Question_delete fault q s =
     (case fault of
        Some e \<Rightarrow> Inl e
      | None \<Rightarrow> Inr (s\<lparr>questions := filter (\<lambda>x. q_id x \<noteq> q_id q) (questions s)\<rparr>))"


section \<open>Pagination\<close>

definition QUESTIONS_PER_PAGE :: nat where
  "QUESTIONS_PER_PAGE = 10"

record 'a pagination =
  pg_items :: "'a list"
  pg_total :: nat
  pg_pages :: nat

text \<open>The largest value of the store's 64-bit integer, the type of \<^verbatim>\<open>OFFSET\<close>.\<close>

definition BIGINT_MAX :: int where
  "BIGINT_MAX = 9223372036854775807"

text \<open>
  The ORM's \<^verbatim>\<open>query.paginate(page, per_page, False)\<close>: with \<^verbatim>\<open>error_out\<close> false a page
  below 1 is read as page 1. The page's rows come from a query with
  \<^verbatim>\<open>OFFSET (page - 1) * per_page\<close>, which the store refuses with an error when the offset
  is beyond its 64-bit integers. \<^verbatim>\<open>pages\<close> is the total divided by the page size, rounded
  up.
\<close>

definition paginate :: "'a list \<Rightarrow> int \<Rightarrow> nat \<Rightarrow> py_exception + 'a pagination" where
  "paginate rows page per_page =
     (let page' = (if page < 1 then 1 else page);
          offset = (page' - 1) * int per_page
      in if BIGINT_MAX < offset then Inl DataError
         else
           (let its = take per_page (drop (nat offset) rows);
                tot = (if page' = 1 \<and> length its < per_page then length its else length rows)
            in Inr \<lparr>pg_items = its, pg_total = tot,
                    pg_pages = (if per_page = 0 then 0 else (tot + per_page - 1) div per_page)\<rparr>))"

section \<open>Case-insensitive pattern matching\<close>

text \<open>
  The lower-case mapping of a Unicode collation on the code points that \<^typ>\<open>char\<close> holds:
  the letters A to Z, and the letters U+00C0 to U+00DE but for the multiplication sign
  U+00D7, go to the letter 32 code points above.
\<close>

definition lower :: "char \<Rightarrow> char" where
  "lower c =
     (let n = (of_char c :: nat)
      in if (65 \<le> n \<and> n \<le> 90) \<or> (192 \<le> n \<and> n \<le> 222 \<and> n \<noteq> 215)
         then char_of (n + 32) else c)"

text \<open>
  SQL \<^verbatim>\<open>LIKE\<close>: \<^verbatim>\<open>%\<close> matches any run of characters, \<^verbatim>\<open>_\<close> any one character, and a
  backslash makes the next pattern character literal. (A pattern that ends in a lone
  backslash is an error in the database; the patterns built below end in \<^verbatim>\<open>%\<close>.)
\<close>

fun like_match :: "string \<Rightarrow> string \<Rightarrow> bool" where
  "like_match [] t = (t = [])"
| "like_match (c # p) t =
     (if c = CHR ''%'' then
        (like_match p t \<or> (case t of [] \<Rightarrow> False | x # t' \<Rightarrow> like_match (c # p) t'))
      else if c = CHR ''_'' then
        (case t of [] \<Rightarrow> False | x # t' \<Rightarrow> like_match p t')
      else if c = CHR 0x5C then
        (case p of
           [] \<Rightarrow> False
         | d # p' \<Rightarrow> (case t of [] \<Rightarrow> False | x # t' \<Rightarrow> x = d \<and> like_match p' t'))
      else
        (case t of [] \<Rightarrow> False | x # t' \<Rightarrow> x = c \<and> like_match p t'))"

text \<open>
  \<^verbatim>\<open>column.ilike(pattern)\<close>: \<^verbatim>\<open>LIKE\<close> on the pattern and the text in lower case, the
  lower case being the one of the store's collation.
\<close>

definition ilike :: "(char \<Rightarrow> char) \<Rightarrow> string \<Rightarrow> string \<Rightarrow> bool" where
  "ilike lc text pattern = like_match (map lc pattern) (map lc text)"

section \<open>The views\<close>

text \<open>
  Every view takes the store and returns its outcome with the store after the call.
\<close>

definition get_categories :: "store \<Rightarrow> (failure + response) \<times> store" where
  "get_categories s =
     (let category_list = map Category_format (categories s)
      in (Inr (jsonify [(''categories'', JList category_list), (''success'', JBool True)] 200), s))"

definition get_questions :: "int \<Rightarrow> store \<Rightarrow> (failure + response) \<times> store" where
  "get_questions page s =
     (case paginate (questions s) page QUESTIONS_PER_PAGE of
        Inl e \<Rightarrow> (Inl (Unhandled e), s)
      | Inr qs \<Rightarrow>
          (let questions_list = map Question_format (pg_items qs);
               category_list = map Category_format (categories s)
           in if page > int (pg_pages qs) \<and> page > 1 then (Inl NotFound, s)
              else (Inr (jsonify [(''questions'', JList questions_list),
                                  (''categories'', JList category_list),
                                  (''current_category'', JNull),
                                  (''success'', JBool True),
                                  (''total_questions'', JInt (int (pg_total qs)))] 200), s)))"

definition get_questions_by_category :: "int \<Rightarrow> store \<Rightarrow> (failure + response) \<times> store" where
  "get_questions_by_category category_id s =
     (case find (\<lambda>c. c_id c = category_id) (categories s) of
        None \<Rightarrow>
          (Inr (jsonify [(''category_id'', JInt category_id),
                         (''success'', JBool False),
                         (''status'', JInt 404),
                         (''message'', JStr ''The category specified in the URL doesn't exist. Please resubmit with a correct category id.'')] 404), s)
      | Some cat \<Rightarrow>
          (let questions_list =
                 map Question_format (filter (\<lambda>q. q_category_id q = c_id cat) (questions s))
           in (Inr (jsonify [(''questions'', JList questions_list),
                             (''total_questions'', JInt (int (length questions_list))),
                             (''current_category'', JInt category_id),
                             (''success'', JBool True)] 200), s)))"

definition delete_question ::
  "string option \<Rightarrow> int \<Rightarrow> store \<Rightarrow> (failure + response) \<times> store" where
  "delete_question fault question_id s =
     (case find (\<lambda>q. q_id q = question_id) (questions s) of
        None \<Rightarrow>
          (Inr (jsonify [(''question_id'', JInt question_id),
                         (''success'', JBool False),
                         (''status'', JInt 404),
                         (''message'', JStr ''The question specified in the URL doesn't exist. Please resubmit with a correct question id'')] 404), s)
      | Some q \<Rightarrow>
          (case Question_delete fault q s of
             Inl e \<Rightarrow>
               (Inr (jsonify [(''question_id'', JInt question_id),
                              (''success'', JBool False),
                              (''status'', JInt 422),
                              (''message'', JStr e)] 422), s)
           | Inr s' \<Rightarrow> (Inr \<lparr>status = 204, body = None\<rparr>, s')))"


definition search_questions :: "json \<Rightarrow> store \<Rightarrow> (failure + response) \<times> store" where
  "search_questions req s =
     (case req of
        JObj d \<Rightarrow>
          (let search_term = dict_get d ''search_term''
           in if search_term = JNull then (Inl BadRequest, s)
              else (case search_term of
                      JStr term \<Rightarrow>
                        if CHR 0x00 \<in> set term then (Inl (Unhandled ValueError), s)
                        else
                          (let question_list =
                                 map Question_format
                                   (filter (\<lambda>q. ilike (collation s) (q_question q)
                                                  (''%'' @ term @ ''%''))
                                      (questions s))
                           in (Inr (jsonify [(''questions'', JList question_list),
                                             (''total_questions'',
                                              JInt (int (length question_list))),
                                             (''current_category'', JNull),
                                             (''status'', JInt 200)] 200), s))
                    | _ \<Rightarrow> (Inl (Unhandled TypeError), s)))
      | _ \<Rightarrow> (Inl (Unhandled AttributeError), s))"

text \<open>
  The comprehension \<^verbatim>\<open>[i.id for i in ids if i.id not in previous_questions]\<close>: the
  membership test runs once per id, so it raises only when there is an id to test.
\<close>

fun filter_ids :: "json \<Rightarrow> int list \<Rightarrow> py_exception + int list" where
  "filter_ids prev [] = Inr []"
| "filter_ids prev (i # ids) =
     (case py_in i prev of
        Inl e \<Rightarrow> Inl e
      | Inr seen \<Rightarrow>
          (case filter_ids prev ids of
             Inl e \<Rightarrow> Inl e
           | Inr rest \<Rightarrow> Inr (if seen then rest else i # rest)))"

text \<open>
  The two pools of ids: \<^verbatim>\<open>db.session.query(Question.id).all()\<close>, and the same query
  filtered by \<^verbatim>\<open>Question.category_id == quiz_category_id\<close>.
\<close>

definition all_question_ids :: "store \<Rightarrow> int list" where
  "all_question_ids s = map q_id (questions s)"

definition category_question_ids :: "int \<Rightarrow> store \<Rightarrow> int list" where
  "category_question_ids cid s = map q_id (filter (\<lambda>q. q_category_id q = cid) (questions s))"

text \<open>\<^verbatim>\<open>random.choice\<close> on a non-empty list; \<open>rnd\<close> is the draw of the random source.\<close>

definition choice :: "nat \<Rightarrow> 'a list \<Rightarrow> 'a" where
  "choice rnd xs = xs ! (rnd mod length xs)"

text \<open>
  The end of \<^verbatim>\<open>play_quizzes\<close>, common to both scopes: no id left ends the quiz,
  otherwise one of the ids left is drawn and its question fetched.
\<close>

definition quiz_result ::
  "nat \<Rightarrow> int list \<Rightarrow> py_exception + int list \<Rightarrow> store \<Rightarrow> (failure + response) \<times> store" where
  "quiz_result rnd ids filtered s =
     (case filtered of
        Inl e \<Rightarrow> (Inl (Unhandled e), s)
      | Inr filtered_ids \<Rightarrow>
          if length filtered_ids = 0 then
            (Inr (jsonify [(''question'', JNull),
                           (''questions_per_play'', JInt (int (min 5 (length ids)))),
                           (''success'', JBool True),
                           (''status'', JInt 200)] 200), s)
          else
            (let question_id = choice rnd filtered_ids
             in case find (\<lambda>q. q_id q = question_id) (questions s) of
                  None \<Rightarrow> (Inl (Unhandled AttributeError), s)
                | Some q \<Rightarrow>
                    (Inr (jsonify [(''question'', Question_format q),
                                   (''questions_per_play'', JInt (int (min 5 (length ids)))),
                                   (''success'', JBool True),
                                   (''status'', JInt 200)] 200), s)))"

definition play_quizzes :: "nat \<Rightarrow> json \<Rightarrow> store \<Rightarrow> (failure + response) \<times> store" where
  "play_quizzes rnd req s =
     (case req of
        JObj d \<Rightarrow>
          (let previous_questions = dict_get d ''previous_questions''
           in case dict_get d ''quiz_category'' of
                JObj qc \<Rightarrow>
                  (let quiz_category_type = dict_get qc ''type''
                   in if previous_questions = JNull then (Inl UnprocessableEntity, s)
                      else if quiz_category_type = JNull then (Inl UnprocessableEntity, s)
                      else if quiz_category_type = JStr ''click'' then
                        (let ids = all_question_ids s
                         in quiz_result rnd ids (filter_ids previous_questions ids) s)
                      else
                        (case quiz_category_type of
                           JObj t \<Rightarrow>
                             (let quiz_category_id = dict_get t ''id''
                              in if quiz_category_id = JNull then (Inl UnprocessableEntity, s)
                                 else
                                   (case quiz_category_id of
                                      JInt cid \<Rightarrow>
                                        (case find (\<lambda>c. c_id c = cid) (categories s) of
                                           None \<Rightarrow> (Inl UnprocessableEntity, s)
                                         | Some cat \<Rightarrow>
                                             (let ids = category_question_ids cid s
                                              in quiz_result rnd ids
                                                   (filter_ids previous_questions ids) s))
                                    | _ \<Rightarrow> (Inl UnprocessableEntity, s)))
                         | _ \<Rightarrow> (Inl UnprocessableEntity, s)))
              | _ \<Rightarrow> (Inl (Unhandled AttributeError), s))
      | _ \<Rightarrow> (Inl (Unhandled AttributeError), s))"

section \<open>Reading a response\<close>

text \<open>The value of a key of the response's JSON object, if the response has one.\<close>

definition field :: "response \<Rightarrow> string \<Rightarrow> json option" where
  "field r k = (case body r of Some (JObj d) \<Rightarrow> map_of d k | _ \<Rightarrow> None)"

text \<open>
  Text \<open>t\<close> contains \<open>term\<close> as a substring, without regard to letter case: in lower case,
  the term is a run of consecutive characters of the text.
\<close>

definition contains_ci :: "(char \<Rightarrow> char) \<Rightarrow> string \<Rightarrow> string \<Rightarrow> bool" where
  "contains_ci lc t term = sublist (map lc term) (map lc t)"

section \<open>The store of the test suite\<close>

definition math_question :: question where
  "math_question =
     \<lparr>q_id = 1, q_question = ''2+2'', q_answer = ''4'', q_category_id = 2, q_difficulty = 4\<rparr>"

definition border_question :: question where
  "border_question =
     \<lparr>q_id = 2, q_question = ''What country borders the US to the North?'',
      q_answer = ''Canada'', q_category_id = 2, q_difficulty = 4\<rparr>"

definition test_store :: store where
  "test_store =
     \<lparr>categories = [\<lparr>c_id = 1, c_type = ''Animals''\<rparr>, \<lparr>c_id = 2, c_type = ''Math''\<rparr>,
                     \<lparr>c_id = 3, c_type = ''Science''\<rparr>, \<lparr>c_id = 4, c_type = ''Disney''\<rparr>,
                     \<lparr>c_id = 5, c_type = ''Sci-Fi''\<rparr>],
      questions = [math_question, border_question],
      collation = lower\<rparr>"

section \<open>Properties\<close>

lemma find_None_ids: "find (\<lambda>x. f x = k) xs = None \<longleftrightarrow> k \<notin> f ` set xs"
  by (auto simp: find_None_iff)

lemma find_Some_ids:
  "k \<in> f ` set xs \<Longrightarrow> \<exists>x. find (\<lambda>x. f x = k) xs = Some x \<and> x \<in> set xs \<and> f x = k"
  by (cases "find (\<lambda>x. f x = k) xs") (auto simp: find_None_iff find_Some_iff)

text \<open>
  Claim C10. The views that only read return the store they were given: the category
  listing, the question listing, the questions of a category, the search and the quiz,
  whether they answer or fail.
\<close>

theorem read_only_store_unchanged:
  "snd (get_categories s) = s \<and>
   snd (get_questions page s) = s \<and>
   snd (get_questions_by_category category_id s) = s \<and>
   snd (search_questions req s) = s \<and>
   snd (play_quizzes rnd req s) = s"
proof -
  have q: "snd (quiz_result rnd ids filtered s) = s" for ids filtered
    by (simp add: quiz_result_def Let_def split: sum.splits option.splits)
  have 1: "snd (get_categories s) = s"
    by (simp add: get_categories_def Let_def)
  have 2: "snd (get_questions page s) = s"
    by (simp add: get_questions_def Let_def split: sum.splits)
  have 3: "snd (get_questions_by_category category_id s) = s"
    by (simp add: get_questions_by_category_def Let_def split: option.splits)
  have 4: "snd (search_questions req s) = s"
    by (simp add: search_questions_def Let_def split: json.splits)
  have 5: "snd (play_quizzes rnd req s) = s"
    by (simp add: play_quizzes_def Let_def q split: json.splits option.splits)
  from 1 2 3 4 5 show ?thesis by simp
qed

text \<open>
  Claim C6. Deleting an id that no question has answers 404 and leaves the store as it
  was. Deleting an id that a question has answers 204 with no body and removes the
  questions of that id, keeping the others; when the store raises an error the answer is
  422 and carries the error's text. After a successful deletion, deleting the same id
  again answers 404.
\<close>

theorem delete_question_outcomes:
  "(question_id \<notin> q_id ` set (questions s) \<longrightarrow>
      status (respond (fst (delete_question fault question_id s))) = 404 \<and>
      snd (delete_question fault question_id s) = s) \<and>
   (question_id \<in> q_id ` set (questions s) \<longrightarrow>
      respond (fst (delete_question None question_id s)) = \<lparr>status = 204, body = None\<rparr> \<and>
      snd (delete_question None question_id s) =
        s\<lparr>questions := filter (\<lambda>q. q_id q \<noteq> question_id) (questions s)\<rparr> \<and>
      question_id \<notin> q_id ` set (questions (snd (delete_question None question_id s))) \<and>
      status (respond (fst (delete_question (Some e) question_id s))) = 422 \<and>
      field (respond (fst (delete_question (Some e) question_id s))) ''message'' = Some (JStr e) \<and>
      status (respond (fst (delete_question fault question_id
                              (snd (delete_question None question_id s))))) = 404)"
proof (intro conjI impI)
  assume a: "question_id \<notin> q_id ` set (questions s)"
  then have n: "find (\<lambda>q. q_id q = question_id) (questions s) = None"
    by (simp add: find_None_ids)
  show "status (respond (fst (delete_question fault question_id s))) = 404"
    by (simp add: delete_question_def n jsonify_def)
  show "snd (delete_question fault question_id s) = s"
    by (simp add: delete_question_def n)
next
  assume a: "question_id \<in> q_id ` set (questions s)"
  from find_Some_ids [OF a] obtain q where
    q: "find (\<lambda>q. q_id q = question_id) (questions s) = Some q" "q_id q = question_id"
    by blast
  show "respond (fst (delete_question None question_id s)) = \<lparr>status = 204, body = None\<rparr>"
    by (simp add: delete_question_def q Question_delete_def)
  show s': "snd (delete_question None question_id s) =
        s\<lparr>questions := filter (\<lambda>q. q_id q \<noteq> question_id) (questions s)\<rparr>"
    by (simp add: delete_question_def q Question_delete_def)
  show gone: "question_id \<notin> q_id ` set (questions (snd (delete_question None question_id s)))"
    by (auto simp: s')
  show "status (respond (fst (delete_question (Some e) question_id s))) = 422"
    by (simp add: delete_question_def q Question_delete_def jsonify_def)
  show "field (respond (fst (delete_question (Some e) question_id s))) ''message'' = Some (JStr e)"
    by (simp add: delete_question_def q Question_delete_def jsonify_def field_def)
  from gone have "find (\<lambda>q. q_id q = question_id)
      (questions (snd (delete_question None question_id s))) = None"
    using find_None_ids [of q_id question_id] by blast
  then show "status (respond (fst (delete_question fault question_id
                              (snd (delete_question None question_id s))))) = 404"
    by (simp add: delete_question_def [of fault] jsonify_def)
qed

text \<open>In the store of the test suite, question 1 is deleted once; the second deletion finds nothing.\<close>

theorem delete_question_outcomes_witness:
  "1 \<in> q_id ` set (questions test_store) \<and>
   respond (fst (delete_question None 1 test_store)) = \<lparr>status = 204, body = None\<rparr> \<and>
   1 \<notin> q_id ` set (questions (snd (delete_question None 1 test_store))) \<and>
   status (respond (fst (delete_question None 1 (snd (delete_question None 1 test_store))))) = 404"
proof -
  have h: "1 \<in> q_id ` set (questions test_store)"
    by (simp add: test_store_def math_question_def)
  from delete_question_outcomes [where question_id = 1 and s = test_store and fault = None
      and e = "''x''"] h
  show ?thesis by blast
qed












lemma list_ex_JInt: "list_ex (\<lambda>x. py_eq_int x i) (map JInt previous) = (i \<in> set previous)"
  by (induction previous) auto

lemma filter_ids_ints:
  "filter_ids (JList (map JInt previous)) ids = Inr (filter (\<lambda>i. i \<notin> set previous) ids)"
  by (induction ids) (simp_all add: list_ex_JInt)

lemma choice_member: "xs \<noteq> [] \<Longrightarrow> choice rnd xs \<in> set xs"
  by (simp add: choice_def)

lemma quiz_result_end:
  "quiz_result rnd ids (Inr []) s =
     (Inr (jsonify [(''question'', JNull),
                    (''questions_per_play'', JInt (int (min 5 (length ids)))),
                    (''success'', JBool True), (''status'', JInt 200)] 200), s)"
  by (simp add: quiz_result_def)

lemma quiz_result_pick:
  assumes "filtered_ids \<noteq> []" and "set filtered_ids \<subseteq> q_id ` set (questions s)"
  shows "\<exists>q. q \<in> set (questions s) \<and> q_id q \<in> set filtered_ids \<and>
           quiz_result rnd ids (Inr filtered_ids) s =
             (Inr (jsonify [(''question'', Question_format q),
                            (''questions_per_play'', JInt (int (min 5 (length ids)))),
                            (''success'', JBool True), (''status'', JInt 200)] 200), s)"
proof -
  from assms(1) have m: "choice rnd filtered_ids \<in> set filtered_ids"
    by (rule choice_member)
  with assms(2) have "choice rnd filtered_ids \<in> q_id ` set (questions s)" by blast
  from find_Some_ids [OF this] obtain q where
    q: "find (\<lambda>q. q_id q = choice rnd filtered_ids) (questions s) = Some q"
       "q \<in> set (questions s)" "q_id q = choice rnd filtered_ids"
    by blast
  from assms(1) q(1) have "quiz_result rnd ids (Inr filtered_ids) s =
             (Inr (jsonify [(''question'', Question_format q),
                            (''questions_per_play'', JInt (int (min 5 (length ids)))),
                            (''success'', JBool True), (''status'', JInt 200)] 200), s)"
    by (simp add: quiz_result_def Let_def)
  with q m show ?thesis by auto
qed

lemma quiz_result_ok:
  "status (respond (fst (quiz_result rnd ids filtered s))) = 200 \<Longrightarrow>
   field (respond (fst (quiz_result rnd ids filtered s))) ''questions_per_play'' =
     Some (JInt (int (min 5 (length ids))))"
  by (auto simp: quiz_result_def Let_def jsonify_def field_def get_500_error_def
           split: sum.splits option.splits if_splits)

lemma play_quizzes_click:
  assumes "dict_get d ''previous_questions'' \<noteq> JNull"
      and "dict_get d ''quiz_category'' = JObj qc"
      and "dict_get qc ''type'' = JStr ''click''"
  shows "play_quizzes rnd (JObj d) s =
           quiz_result rnd (all_question_ids s)
             (filter_ids (dict_get d ''previous_questions'') (all_question_ids s)) s"
  using assms by (simp add: play_quizzes_def Let_def)

lemma play_quizzes_category:
  assumes "dict_get d ''previous_questions'' \<noteq> JNull"
      and "dict_get d ''quiz_category'' = JObj qc"
      and "dict_get qc ''type'' = JObj t"
      and "dict_get t ''id'' = JInt cid"
      and "cid \<in> c_id ` set (categories s)"
  shows "play_quizzes rnd (JObj d) s =
           quiz_result rnd (category_question_ids cid s)
             (filter_ids (dict_get d ''previous_questions'') (category_question_ids cid s)) s"
proof -
  from find_Some_ids [OF assms(5)] obtain c where
    "find (\<lambda>c. c_id c = cid) (categories s) = Some c" by blast
  with assms(1-4) show ?thesis by (simp add: play_quizzes_def Let_def)
qed

lemma dict_get_Some: "map_of d k = Some v \<Longrightarrow> dict_get d k = v"
  by (simp add: dict_get_def)

text \<open>
  Claim C1. For a request whose \<open>previous_questions\<close> is a list of ids and whose scope is
  all questions or an existing category, the pool is the ids of the store's questions,
  or of its questions in that category. The quiz answers 200 with success. When every
  id of the pool is among the previous ones the question is null; otherwise the question
  is a stored question whose id is in the pool and not among the previous ones.
\<close>

theorem play_quizzes_selection:
  assumes prev: "map_of d ''previous_questions'' = Some (JList (map JInt previous))"
      and qc: "map_of d ''quiz_category'' = Some (JObj qc)"
      and ty: "map_of qc ''type'' = Some t"
      and scope: "(t = JStr ''click'' \<and> pool_ids = map q_id (questions s)) \<or>
                  (\<exists>ob cid. t = JObj ob \<and> map_of ob ''id'' = Some (JInt cid) \<and>
                     cid \<in> c_id ` set (categories s) \<and>
                     pool_ids = map q_id (filter (\<lambda>q. q_category_id q = cid) (questions s)))"
      and r: "r = respond (fst (play_quizzes rnd (JObj d) s))"
  shows "status r = 200 \<and> field r ''success'' = Some (JBool True) \<and>
         (if set pool_ids - set previous = {} then field r ''question'' = Some JNull
          else \<exists>q. q \<in> set (questions s) \<and> field r ''question'' = Some (Question_format q) \<and>
                 q_id q \<in> set pool_ids - set previous)"
proof -
  let ?f = "filter (\<lambda>i. i \<notin> set previous) pool_ids"
  have p: "dict_get d ''previous_questions'' = JList (map JInt previous)"
    using prev by (rule dict_get_Some)
  have pq: "play_quizzes rnd (JObj d) s = quiz_result rnd pool_ids (Inr ?f) s"
    using scope
  proof
    assume "t = JStr ''click'' \<and> pool_ids = map q_id (questions s)"
    then show ?thesis
      using play_quizzes_click [of d qc rnd s] p qc ty
      by (simp add: dict_get_Some filter_ids_ints all_question_ids_def
            category_question_ids_def)
  next
    assume "\<exists>ob cid. t = JObj ob \<and> map_of ob ''id'' = Some (JInt cid) \<and>
                     cid \<in> c_id ` set (categories s) \<and>
                     pool_ids = map q_id (filter (\<lambda>q. q_category_id q = cid) (questions s))"
    then obtain ob cid where
      "t = JObj ob" "map_of ob ''id'' = Some (JInt cid)"
      "cid \<in> c_id ` set (categories s)" "pool_ids = map q_id (filter (\<lambda>q. q_category_id q = cid) (questions s))"
      by blast
    then show ?thesis
      using play_quizzes_category [of d qc ob cid s rnd] p qc ty
      by (simp add: dict_get_Some filter_ids_ints all_question_ids_def
            category_question_ids_def)
  qed
  have sub: "set pool_ids \<subseteq> q_id ` set (questions s)"
    using scope by auto
  have fs: "set ?f = set pool_ids - set previous" by auto
  show ?thesis
  proof (cases "?f = []")
    case True
    then have "set pool_ids - set previous = {}" using fs by simp
    then show ?thesis
      by (simp add: r pq True quiz_result_end jsonify_def field_def)
  next
    case False
    then have ne: "set pool_ids - set previous \<noteq> {}" using fs by (metis set_empty)
    from sub have "set ?f \<subseteq> q_id ` set (questions s)" by auto
    from quiz_result_pick [OF False this, of rnd pool_ids] obtain q where
      q: "q \<in> set (questions s)" "q_id q \<in> set ?f"
         "quiz_result rnd pool_ids (Inr ?f) s =
             (Inr (jsonify [(''question'', Question_format q),
                            (''questions_per_play'', JInt (int (min 5 (length pool_ids)))),
                            (''success'', JBool True), (''status'', JInt 200)] 200), s)"
      by blast
    have "field r ''question'' = Some (Question_format q)"
      by (simp add: r pq q(3) jsonify_def field_def)
    moreover have "q_id q \<in> set pool_ids - set previous" using q(2) fs by simp
    moreover have "status r = 200" "field r ''success'' = Some (JBool True)"
      by (simp_all add: r pq q(3) jsonify_def field_def)
    ultimately show ?thesis using ne q(1) by auto
  qed
qed

text \<open>The test suite's quiz over all categories, question 1 already seen.\<close>

theorem play_quizzes_selection_witness:
  "status (respond (fst (play_quizzes 0
      (JObj [(''previous_questions'', JList (map JInt [1])),
             (''quiz_category'', JObj [(''type'', JStr ''click'')])]) test_store))) = 200 \<and>
   field (respond (fst (play_quizzes 0
      (JObj [(''previous_questions'', JList (map JInt [1])),
             (''quiz_category'', JObj [(''type'', JStr ''click'')])]) test_store)))
     ''success'' = Some (JBool True) \<and>
   (if set (map q_id (questions test_store)) - set [1] = {}
    then field (respond (fst (play_quizzes 0
      (JObj [(''previous_questions'', JList (map JInt [1])),
             (''quiz_category'', JObj [(''type'', JStr ''click'')])]) test_store)))
     ''question'' = Some JNull
    else \<exists>q. q \<in> set (questions test_store) \<and>
      field (respond (fst (play_quizzes 0
      (JObj [(''previous_questions'', JList (map JInt [1])),
             (''quiz_category'', JObj [(''type'', JStr ''click'')])]) test_store)))
       ''question'' = Some (Question_format q) \<and>
      q_id q \<in> set (map q_id (questions test_store)) - set [1])"
proof (rule play_quizzes_selection [where qc = "[(''type'', JStr ''click'')]"
      and t = "JStr ''click''"])
  show "map_of [(''previous_questions'', JList (map JInt [1])),
             (''quiz_category'', JObj [(''type'', JStr ''click'')])] ''previous_questions'' =
        Some (JList (map JInt [1]))" by simp
  show "map_of [(''previous_questions'', JList (map JInt [1])),
             (''quiz_category'', JObj [(''type'', JStr ''click'')])] ''quiz_category'' =
        Some (JObj [(''type'', JStr ''click'')])" by simp
  show "map_of [(''type'', JStr ''click'')] ''type'' = Some (JStr ''click'')" by simp
  show "JStr ''click'' = JStr ''click'' \<and> map q_id (questions test_store) = map q_id (questions test_store) \<or>
        (\<exists>ob cid. JStr ''click'' = JObj ob \<and> map_of ob ''id'' = Some (JInt cid) \<and>
           cid \<in> c_id ` set (categories test_store) \<and>
           map q_id (questions test_store) =
             map q_id (filter (\<lambda>q. q_category_id q = cid) (questions test_store)))" by simp
  show "respond (fst (play_quizzes 0
      (JObj [(''previous_questions'', JList (map JInt [1])),
             (''quiz_category'', JObj [(''type'', JStr ''click'')])]) test_store)) =
    respond (fst (play_quizzes 0
      (JObj [(''previous_questions'', JList (map JInt [1])),
             (''quiz_category'', JObj [(''type'', JStr ''click'')])]) test_store))" by simp
qed

lemma play_quizzes_not_object:
  "(\<forall>d. req \<noteq> JObj d) \<Longrightarrow> play_quizzes rnd req s = (Inl (Unhandled AttributeError), s)"
  by (cases req) (simp_all add: play_quizzes_def)

lemma play_quizzes_no_category:
  "(\<forall>qc. dict_get d ''quiz_category'' \<noteq> JObj qc) \<Longrightarrow>
   play_quizzes rnd (JObj d) s = (Inl (Unhandled AttributeError), s)"
  by (cases "dict_get d ''quiz_category''") (simp_all add: play_quizzes_def Let_def)

lemma play_quizzes_missing:
  assumes "dict_get d ''quiz_category'' = JObj qc"
      and "dict_get d ''previous_questions'' = JNull \<or> dict_get qc ''type'' = JNull"
  shows "play_quizzes rnd (JObj d) s = (Inl UnprocessableEntity, s)"
  using assms by (auto simp: play_quizzes_def Let_def)

lemma play_quizzes_not_dict:
  assumes "dict_get d ''quiz_category'' = JObj qc"
      and "dict_get qc ''type'' \<noteq> JStr ''click''"
      and "\<forall>t. dict_get qc ''type'' \<noteq> JObj t"
  shows "play_quizzes rnd (JObj d) s = (Inl UnprocessableEntity, s)"
  using assms by (cases "dict_get qc ''type''") (simp_all add: play_quizzes_def Let_def)

lemma play_quizzes_bad_id:
  assumes "dict_get d ''quiz_category'' = JObj qc"
      and "dict_get qc ''type'' = JObj t"
      and "\<forall>cid. dict_get t ''id'' \<noteq> JInt cid"
  shows "play_quizzes rnd (JObj d) s = (Inl UnprocessableEntity, s)"
  using assms by (cases "dict_get t ''id''") (simp_all add: play_quizzes_def Let_def)

lemma play_quizzes_unknown_category:
  assumes "dict_get d ''quiz_category'' = JObj qc"
      and "dict_get qc ''type'' = JObj t"
      and "dict_get t ''id'' = JInt cid"
      and "cid \<notin> c_id ` set (categories s)"
  shows "play_quizzes rnd (JObj d) s = (Inl UnprocessableEntity, s)"
proof -
  from assms(4) have "find (\<lambda>c. c_id c = cid) (categories s) = None"
    by (simp add: find_None_ids)
  with assms(1-3) show ?thesis by (simp add: play_quizzes_def Let_def)
qed

text \<open>
  Claim C2. Whenever the quiz answers 200, with a question or with null, the request
  names a scope, and \<open>questions_per_play\<close> is the smaller of 5 and the number of the
  store's questions in that scope: all its questions, or its questions of the requested
  category. The previous questions play no part in it.
\<close>

theorem questions_per_play_of_pool:
  assumes r: "r = respond (fst (play_quizzes rnd req s))"
      and ok: "status r = 200"
  shows "\<exists>d qc. req = JObj d \<and> dict_get d ''quiz_category'' = JObj qc \<and>
           ((dict_get qc ''type'' = JStr ''click'' \<and>
             field r ''questions_per_play'' =
               Some (JInt (int (min 5 (length (questions s)))))) \<or>
            (\<exists>t cid. dict_get qc ''type'' = JObj t \<and> dict_get t ''id'' = JInt cid \<and>
               cid \<in> c_id ` set (categories s) \<and>
               field r ''questions_per_play'' =
                 Some (JInt (int (min 5 (length (filter (\<lambda>q. q_category_id q = cid)
                                                   (questions s))))))))"
proof -
  have n: "play_quizzes rnd req s = (Inl f, s) \<Longrightarrow> False" for f
    using ok r
    by (cases f)
       (simp_all add: get_400_error_def get_404_error_def get_422_error_def
          get_500_error_def jsonify_def)
  obtain d where d: "req = JObj d"
    using n play_quizzes_not_object [of req rnd s] by blast
  obtain qc where qc: "dict_get d ''quiz_category'' = JObj qc"
    using n play_quizzes_no_category [of d rnd s] d by blast
  have p: "dict_get d ''previous_questions'' \<noteq> JNull"
    using n play_quizzes_missing [OF qc, of rnd s] d by blast
  show ?thesis
  proof (cases "dict_get qc ''type'' = JStr ''click''")
    case True
    have "play_quizzes rnd req s =
           quiz_result rnd (all_question_ids s)
             (filter_ids (dict_get d ''previous_questions'') (all_question_ids s)) s"
      unfolding d by (rule play_quizzes_click [OF p qc True])
    with ok r have "field r ''questions_per_play'' =
               Some (JInt (int (min 5 (length (all_question_ids s)))))"
      by (simp add: quiz_result_ok)
    then have "field r ''questions_per_play'' =
               Some (JInt (int (min 5 (length (questions s)))))"
      by (simp add: all_question_ids_def)
    with d qc True show ?thesis by blast
  next
    case False
    obtain t where t: "dict_get qc ''type'' = JObj t"
      using n play_quizzes_not_dict [OF qc False, of rnd s] d by blast
    obtain cid where cid: "dict_get t ''id'' = JInt cid"
      using n play_quizzes_bad_id [OF qc t, of rnd s] d by blast
    have c: "cid \<in> c_id ` set (categories s)"
      using n play_quizzes_unknown_category [OF qc t cid, of s rnd] d by blast
    have "play_quizzes rnd req s =
           quiz_result rnd (category_question_ids cid s)
             (filter_ids (dict_get d ''previous_questions'') (category_question_ids cid s)) s"
      unfolding d by (rule play_quizzes_category [OF p qc t cid c])
    with ok r have "field r ''questions_per_play'' =
               Some (JInt (int (min 5 (length (category_question_ids cid s)))))"
      by (simp add: quiz_result_ok)
    then have "field r ''questions_per_play'' =
               Some (JInt (int (min 5 (length (filter (\<lambda>q. q_category_id q = cid)
                                                   (questions s))))))"
      by (simp add: category_question_ids_def)
    with d qc t cid c show ?thesis by blast
  qed
qed

text \<open>The test suite's quiz in category 2, question 1 already seen.\<close>

theorem questions_per_play_of_pool_witness:
  "status (respond (fst (play_quizzes 0
      (JObj [(''previous_questions'', JList [JInt 1]),
             (''quiz_category'', JObj [(''type'', JObj [(''id'', JInt 2), (''type'', JStr ''Math'')])])])
      test_store))) = 200 \<and>
   (\<exists>d qc. JObj [(''previous_questions'', JList [JInt 1]),
             (''quiz_category'', JObj [(''type'', JObj [(''id'', JInt 2), (''type'', JStr ''Math'')])])] = JObj d \<and>
      dict_get d ''quiz_category'' = JObj qc \<and>
      ((dict_get qc ''type'' = JStr ''click'' \<and>
        field (respond (fst (play_quizzes 0
          (JObj [(''previous_questions'', JList [JInt 1]),
             (''quiz_category'', JObj [(''type'', JObj [(''id'', JInt 2), (''type'', JStr ''Math'')])])])
          test_store))) ''questions_per_play'' =
          Some (JInt (int (min 5 (length (questions test_store)))))) \<or>
       (\<exists>t cid. dict_get qc ''type'' = JObj t \<and> dict_get t ''id'' = JInt cid \<and>
          cid \<in> c_id ` set (categories test_store) \<and>
          field (respond (fst (play_quizzes 0
            (JObj [(''previous_questions'', JList [JInt 1]),
             (''quiz_category'', JObj [(''type'', JObj [(''id'', JInt 2), (''type'', JStr ''Math'')])])])
            test_store))) ''questions_per_play'' =
            Some (JInt (int (min 5 (length (filter (\<lambda>q. q_category_id q = cid)
                                              (questions test_store)))))))))"
proof -
  have h: "status (respond (fst (play_quizzes 0
      (JObj [(''previous_questions'', JList [JInt 1]),
             (''quiz_category'', JObj [(''type'', JObj [(''id'', JInt 2), (''type'', JStr ''Math'')])])])
      test_store))) = 200"
    by (simp add: play_quizzes_def Let_def dict_get_def test_store_def math_question_def
          border_question_def category_question_ids_def quiz_result_def choice_def
          jsonify_def)
  from h questions_per_play_of_pool [OF refl h] show ?thesis by (rule conjI)
qed

text \<open>
  Claim C4. For a request whose \<open>quiz_category.type\<close> is present and is not the marker of
  all categories, the quiz aborts with 422 when the type is not an object, when the
  object has no \<open>id\<close>, when the id is not an integer, and when no category has that id.
  When the type is an object whose integer id a category has (and the previous questions
  are present), the answer is drawn from the pool of that category.
\<close>

theorem play_quizzes_category_validation:
  assumes qc: "map_of d ''quiz_category'' = Some (JObj qc)"
      and ty: "map_of qc ''type'' = Some t"
      and present: "t \<noteq> JNull"
      and scoped: "t \<noteq> JStr ''click''"
  shows "(((\<forall>ob. t \<noteq> JObj ob) \<or>
           (\<exists>ob. t = JObj ob \<and>
              (map_of ob ''id'' = None \<or>
               (\<forall>cid. map_of ob ''id'' \<noteq> Some (JInt cid)) \<or>
               (\<exists>cid. map_of ob ''id'' = Some (JInt cid) \<and> cid \<notin> c_id ` set (categories s))))) \<longrightarrow>
          fst (play_quizzes rnd (JObj d) s) = Inl UnprocessableEntity \<and>
          status (respond (fst (play_quizzes rnd (JObj d) s))) = 422) \<and>
         (\<forall>ob cid. t = JObj ob \<and> map_of ob ''id'' = Some (JInt cid) \<and>
             cid \<in> c_id ` set (categories s) \<and> dict_get d ''previous_questions'' \<noteq> JNull \<longrightarrow>
             play_quizzes rnd (JObj d) s =
               quiz_result rnd (category_question_ids cid s)
                 (filter_ids (dict_get d ''previous_questions'') (category_question_ids cid s)) s)"
proof (intro conjI impI allI)
  have q: "dict_get d ''quiz_category'' = JObj qc" using qc by (rule dict_get_Some)
  have y: "dict_get qc ''type'' = t" using ty by (rule dict_get_Some)
  assume bad: "(\<forall>ob. t \<noteq> JObj ob) \<or>
           (\<exists>ob. t = JObj ob \<and>
              (map_of ob ''id'' = None \<or>
               (\<forall>cid. map_of ob ''id'' \<noteq> Some (JInt cid)) \<or>
               (\<exists>cid. map_of ob ''id'' = Some (JInt cid) \<and> cid \<notin> c_id ` set (categories s))))"
  have u: "play_quizzes rnd (JObj d) s = (Inl UnprocessableEntity, s)"
    using bad
  proof
    assume "\<forall>ob. t \<noteq> JObj ob"
    then show ?thesis using play_quizzes_not_dict [OF q, of rnd s] y scoped by simp
  next
    assume "\<exists>ob. t = JObj ob \<and>
              (map_of ob ''id'' = None \<or>
               (\<forall>cid. map_of ob ''id'' \<noteq> Some (JInt cid)) \<or>
               (\<exists>cid. map_of ob ''id'' = Some (JInt cid) \<and> cid \<notin> c_id ` set (categories s)))"
    then obtain ob where ob: "t = JObj ob" and
      c: "map_of ob ''id'' = None \<or>
               (\<forall>cid. map_of ob ''id'' \<noteq> Some (JInt cid)) \<or>
               (\<exists>cid. map_of ob ''id'' = Some (JInt cid) \<and> cid \<notin> c_id ` set (categories s))"
      by blast
    have yo: "dict_get qc ''type'' = JObj ob" using y ob by simp
    from c have "(\<forall>cid. dict_get ob ''id'' \<noteq> JInt cid) \<or>
        (\<exists>cid. dict_get ob ''id'' = JInt cid \<and> cid \<notin> c_id ` set (categories s))"
      by (cases "map_of ob ''id''") (auto simp: dict_get_def)
    then consider "\<forall>cid. dict_get ob ''id'' \<noteq> JInt cid"
      | cid where "dict_get ob ''id'' = JInt cid" "cid \<notin> c_id ` set (categories s)"
      by blast
    then show ?thesis
    proof cases
      case 1
      then show ?thesis by (rule play_quizzes_bad_id [OF q yo])
    next
      case 2
      then show ?thesis by (rule play_quizzes_unknown_category [OF q yo])
    qed
  qed
  show "fst (play_quizzes rnd (JObj d) s) = Inl UnprocessableEntity" by (simp add: u)
  show "status (respond (fst (play_quizzes rnd (JObj d) s))) = 422"
    by (simp add: u get_422_error_def jsonify_def)
next
  fix ob cid
  assume a: "t = JObj ob \<and> map_of ob ''id'' = Some (JInt cid) \<and>
             cid \<in> c_id ` set (categories s) \<and> dict_get d ''previous_questions'' \<noteq> JNull"
  have q: "dict_get d ''quiz_category'' = JObj qc" using qc by (rule dict_get_Some)
  have y: "dict_get qc ''type'' = JObj ob" using ty a by (simp add: dict_get_Some)
  have i: "dict_get ob ''id'' = JInt cid" using a by (simp add: dict_get_Some)
  from a have p: "dict_get d ''previous_questions'' \<noteq> JNull"
    and c: "cid \<in> c_id ` set (categories s)" by simp_all
  show "play_quizzes rnd (JObj d) s =
               quiz_result rnd (category_question_ids cid s)
                 (filter_ids (dict_get d ''previous_questions'') (category_question_ids cid s)) s"
    by (rule play_quizzes_category [OF p q y i c])
qed

text \<open>The test suite's quiz in category 100, which the store does not have.\<close>

theorem play_quizzes_category_validation_witness:
  "fst (play_quizzes 0
      (JObj [(''previous_questions'', JList [JInt 1]),
             (''quiz_category'', JObj [(''type'', JObj [(''id'', JInt 100)])])])
      test_store) = Inl UnprocessableEntity \<and>
   status (respond (fst (play_quizzes 0
      (JObj [(''previous_questions'', JList [JInt 1]),
             (''quiz_category'', JObj [(''type'', JObj [(''id'', JInt 100)])])])
      test_store))) = 422"
proof -
  let ?d = "[(''previous_questions'', JList [JInt 1]),
             (''quiz_category'', JObj [(''type'', JObj [(''id'', JInt 100)])])]"
  let ?qc = "[(''type'', JObj [(''id'', JInt 100)])]"
  let ?t = "JObj [(''id'', JInt 100)]"
  have 1: "map_of ?d ''quiz_category'' = Some (JObj ?qc)" by simp
  have 2: "map_of ?qc ''type'' = Some ?t" by simp
  have 3: "?t \<noteq> JNull" by simp
  have 4: "?t \<noteq> JStr ''click''" by simp
  have bad: "(\<forall>ob. ?t \<noteq> JObj ob) \<or>
           (\<exists>ob. ?t = JObj ob \<and>
              (map_of ob ''id'' = None \<or>
               (\<forall>cid. map_of ob ''id'' \<noteq> Some (JInt cid)) \<or>
               (\<exists>cid. map_of ob ''id'' = Some (JInt cid) \<and>
                  cid \<notin> c_id ` set (categories test_store))))"
    by (simp add: test_store_def)
  from play_quizzes_category_validation [OF 1 2 3 4, where s = test_store and rnd = 0,
      THEN conjunct1, THEN mp, OF bad]
  show ?thesis .
qed

text \<open>
  Claim C7. The search term goes into the pattern without escaping, so \<^verbatim>\<open>_\<close> stands for
  any one character: the search for it returns both questions of the test suite's
  store, and neither text contains an underscore.
\<close>

theorem search_questions_wildcard:
  "field (respond (fst (search_questions (JObj [(''search_term'', JStr ''_'')]) test_store)))
     ''questions'' =
     Some (JList [Question_format math_question, Question_format border_question]) \<and>
   filter (\<lambda>q. contains_ci (collation test_store) (q_question q) ''_'')
     (questions test_store) = [] \<and>
   filter (\<lambda>q. CHR ''_'' \<in> set (q_question q)) (questions test_store) = []"
proof (intro conjI)
  show "field (respond (fst (search_questions (JObj [(''search_term'', JStr ''_'')]) test_store)))
     ''questions'' =
     Some (JList [Question_format math_question, Question_format border_question])"
    by (simp add: search_questions_def Let_def dict_get_def ilike_def lower_def field_def
          jsonify_def test_store_def math_question_def border_question_def)
  show "filter (\<lambda>q. contains_ci (collation test_store) (q_question q) ''_'')
     (questions test_store) = []"
    by code_simp
  show "filter (\<lambda>q. CHR ''_'' \<in> set (q_question q)) (questions test_store) = []"
    by (simp add: test_store_def math_question_def border_question_def)
qed

text \<open>
  Claim C3. The view reads \<open>quiz_category.type\<close> before it tests \<open>previous_questions\<close>:
  for the empty body, where both are absent, the read of \<open>type\<close> raises and the answer is
  500, not 422.
\<close>

theorem play_quizzes_without_category:
  "status (respond (fst (play_quizzes 0 (JObj []) test_store))) = 500 \<and>
   fst (play_quizzes 0 (JObj []) test_store) = Inl (Unhandled AttributeError)"
  by (simp add: play_quizzes_def Let_def dict_get_def get_500_error_def jsonify_def)

text \<open>
  Claim C9. The answer to a successful search has no \<open>success\<close> key: it holds
  \<open>questions\<close>, \<open>total_questions\<close>, \<open>current_category\<close> and \<open>status\<close> only.
\<close>

theorem search_questions_without_success:
  "status (respond (fst (search_questions (JObj [(''search_term'', JStr ''country'')])
                      test_store))) = 200 \<and>
   field (respond (fst (search_questions (JObj [(''search_term'', JStr ''country'')])
                      test_store))) ''success'' = None"
  by (simp add: search_questions_def Let_def dict_get_def field_def jsonify_def)

end
